theory Spec2Isabelle
  imports Main "HOL-Library.Multiset"
begin

section \<open>Python values, dictionaries and exceptions\<close>

text \<open>
  \<open>hedge_engine/ffi/__init__.py\<close> first tries to import its five functions from the
  compiled extension \<open>lean_ffi\<close>, which is not part of the sources; what is verified
  here is what the module defines when that import fails, the pure-Python stubs.

  The stubs work on Python integers
  (unbounded, so \<open>int\<close>), on strings and on position dictionaries: a position is a
  \<open>dict\<close> from string keys to values that are integers or strings
  (\<open>dict[str, int | str]\<close>). A dictionary need not hold every key: the tests value
  positions that carry no \<open>asset_id\<close>. Subscripting a missing key raises
  \<open>KeyError\<close>; arithmetic on a string raises \<open>TypeError\<close> (or repeats the string,
  for \<open>str * int\<close>). Exhausting memory is outside the model.
\<close>

datatype pyval = PInt int | PStr string

type_synonym pydict = "string \<rightharpoonup> pyval"

datatype error = KeyError string | TypeError

type_synonym 'a result = "error + 'a"

text \<open>\<open>d[k]\<close>\<close>

definition getitem :: "pydict \<Rightarrow> string \<Rightarrow> pyval result" where
  "getitem d k = (case d k of None \<Rightarrow> Inl (KeyError k) | Some v \<Rightarrow> Inr v)"

text \<open>\<open>a * b\<close>: the product of two integers, the repetition of a string (empty for a
  count below one); two strings have no product.\<close>

fun py_mul :: "pyval \<Rightarrow> pyval \<Rightarrow> pyval result" where
  "py_mul (PInt a) (PInt b) = Inr (PInt (a * b))"
| "py_mul (PStr s) (PInt n) = Inr (PStr (concat (replicate (nat n) s)))"
| "py_mul (PInt n) (PStr s) = Inr (PStr (concat (replicate (nat n) s)))"
| "py_mul (PStr s) (PStr t) = Inl TypeError"

text \<open>\<open>acc + v\<close> for an integer accumulator, as \<open>sum\<close> computes it from its start
  value \<open>0\<close>.\<close>

fun int_add :: "int \<Rightarrow> pyval \<Rightarrow> int result" where
  "int_add acc (PInt b) = Inr (acc + b)"
| "int_add acc (PStr s) = Inl TypeError"

text \<open>\<open>a == b\<close>: an integer never equals a string; strings are equal when they are
  the same sequence of characters.\<close>

definition py_eq :: "pyval \<Rightarrow> pyval \<Rightarrow> bool" where
  "py_eq a b = (a = b)"

section \<open>The accounting stubs on values\<close>

text \<open>
  \<^verbatim>\<open>
  def position_value(quantity: int, mark_price: int) -> int:
      return quantity * mark_price
  \<close>
\<close>

definition position_value :: "int \<Rightarrow> int \<Rightarrow> int" where
  "position_value quantity mark_price = quantity * mark_price"

text \<open>
  \<^verbatim>\<open>
  def sum_position_values(positions: list[dict[str, int]]) -> int:
      return sum(p["quantity"] * p["mark_price"] for p in positions)
  \<close>
  The generator yields, for one position, the product of its two fields: the
  subscripts are evaluated left to right, then the product. \<open>sum\<close> starts from \<open>0\<close>
  and draws one product at a time, adding it to the accumulator before the next
  position is looked at; the first exception ends the call.
\<close>

definition position_product :: "pydict \<Rightarrow> pyval result" where
  "position_product p =
     (case getitem p ''quantity'' of
        Inl e \<Rightarrow> Inl e
      | Inr q \<Rightarrow>
          (case getitem p ''mark_price'' of
             Inl e \<Rightarrow> Inl e
           | Inr m \<Rightarrow> py_mul q m))"

fun sum_loop :: "int \<Rightarrow> pydict list \<Rightarrow> int result" where
  "sum_loop acc [] = Inr acc"
| "sum_loop acc (p # ps) =
     (case position_product p of
        Inl e \<Rightarrow> Inl e
      | Inr v \<Rightarrow>
          (case int_add acc v of
             Inl e \<Rightarrow> Inl e
           | Inr acc' \<Rightarrow> sum_loop acc' ps))"

definition sum_position_values :: "pydict list \<Rightarrow> int result" where
  "sum_position_values positions = sum_loop 0 positions"

text \<open>
  \<^verbatim>\<open>
  def calc_nav(cash: int, positions: list[dict[str, int]]) -> int:
      return int(cash + sum_position_values(positions))
  \<close>
  \<open>int\<close> of an integer is that integer.
\<close>

definition calc_nav :: "int \<Rightarrow> pydict list \<Rightarrow> int result" where
  "calc_nav cash positions =
     (case sum_position_values positions of
        Inl e \<Rightarrow> Inl e
      | Inr s \<Rightarrow> Inr (cash + s))"

text \<open>
  \<^verbatim>\<open>
  def get_position(positions, asset_id: str):
      for p in positions:
          if p["asset_id"] == asset_id:
              return p
      return None
  \<close>
\<close>

fun get_position :: "pydict list \<Rightarrow> string \<Rightarrow> pydict option result" where
  "get_position [] asset_id = Inr None"
| "get_position (p # ps) asset_id =
     (case getitem p ''asset_id'' of
        Inl e \<Rightarrow> Inl e
      | Inr v \<Rightarrow>
          if py_eq v (PStr asset_id) then Inr (Some p)
          else get_position ps asset_id)"

section \<open>The accounting stubs on objects\<close>

text \<open>
  Python passes lists and dictionaries by reference, and both are mutable. To say what
  a call leaves unchanged, the same five functions are read once more over an explicit
  store of objects: list objects hold references to dictionary objects, a call takes
  the store and returns its result together with the store it leaves behind, and a
  lookup returns the reference of the dictionary it found (\<open>return p\<close> hands back the
  very object of the list, no copy). Every reference denotes an object, as in Python.
\<close>

type_synonym addr = nat

record store =
  list_obj :: "addr \<Rightarrow> addr list"
  dict_obj :: "addr \<Rightarrow> pydict"

text \<open>
  The two reads the stubs perform: the elements of a list object, in order, and
  \<open>d[k]\<close> on a dictionary object. A \<open>for\<close> loop and a generator draw the elements
  of the list one at a time; no step of a stub writes to the store in between, so the
  loops below run over the elements the list holds when the loop is entered, and pass
  the store from one step to the next.
\<close>

definition list_elems :: "store \<Rightarrow> addr \<Rightarrow> addr list \<times> store" where
  "list_elems h l = (list_obj h l, h)"

definition dict_getitem :: "store \<Rightarrow> addr \<Rightarrow> string \<Rightarrow> pyval result \<times> store" where
  "dict_getitem h d k = (getitem (dict_obj h d) k, h)"

text \<open>
  \<^verbatim>\<open>
  def initialize_lean() -> None:
      """Stub: Lean runtime initialization (no-op)."""
  \<close>
  The body is its docstring alone: the call returns \<open>None\<close>.
\<close>

definition initialize_lean :: "store \<Rightarrow> unit result \<times> store" where
  "initialize_lean h = (Inr (), h)"

definition position_product_st :: "store \<Rightarrow> addr \<Rightarrow> pyval result \<times> store" where
  "position_product_st h p =
     (case dict_getitem h p ''quantity'' of
        (Inl e, h1) \<Rightarrow> (Inl e, h1)
      | (Inr q, h1) \<Rightarrow>
          (case dict_getitem h1 p ''mark_price'' of
             (Inl e, h2) \<Rightarrow> (Inl e, h2)
           | (Inr m, h2) \<Rightarrow> (py_mul q m, h2)))"

fun sum_loop_st :: "store \<Rightarrow> int \<Rightarrow> addr list \<Rightarrow> int result \<times> store" where
  "sum_loop_st h acc [] = (Inr acc, h)"
| "sum_loop_st h acc (p # ps) =
     (case position_product_st h p of
        (Inl e, h1) \<Rightarrow> (Inl e, h1)
      | (Inr v, h1) \<Rightarrow>
          (case int_add acc v of
             Inl e \<Rightarrow> (Inl e, h1)
           | Inr acc' \<Rightarrow> sum_loop_st h1 acc' ps))"

definition sum_position_values_st :: "store \<Rightarrow> addr \<Rightarrow> int result \<times> store" where
  "sum_position_values_st h positions =
     (case list_elems h positions of (ps, h1) \<Rightarrow> sum_loop_st h1 0 ps)"

definition calc_nav_st :: "store \<Rightarrow> int \<Rightarrow> addr \<Rightarrow> int result \<times> store" where
  "calc_nav_st h cash positions =
     (case sum_position_values_st h positions of
        (Inl e, h1) \<Rightarrow> (Inl e, h1)
      | (Inr s, h1) \<Rightarrow> (Inr (cash + s), h1))"

fun get_position_loop_st ::
  "store \<Rightarrow> addr list \<Rightarrow> string \<Rightarrow> addr option result \<times> store" where
  "get_position_loop_st h [] asset_id = (Inr None, h)"
| "get_position_loop_st h (p # ps) asset_id =
     (case dict_getitem h p ''asset_id'' of
        (Inl e, h1) \<Rightarrow> (Inl e, h1)
      | (Inr v, h1) \<Rightarrow>
          if py_eq v (PStr asset_id) then (Inr (Some p), h1)
          else get_position_loop_st h1 ps asset_id)"

definition get_position_st ::
  "store \<Rightarrow> addr \<Rightarrow> string \<Rightarrow> addr option result \<times> store" where
  "get_position_st h positions asset_id =
     (case list_elems h positions of (ps, h1) \<Rightarrow> get_position_loop_st h1 ps asset_id)"

section \<open>Position records and the Money range\<close>

text \<open>
  The fields of a position as the specification's data model names them. A dictionary
  is a valued position when it holds an integer quantity and an integer mark price,
  and an identified position when it holds an \<open>asset_id\<close>.
\<close>

definition quantity :: "pydict \<Rightarrow> int option" where
  "quantity p = (case p ''quantity'' of Some (PInt n) \<Rightarrow> Some n | _ \<Rightarrow> None)"

definition mark_price :: "pydict \<Rightarrow> int option" where
  "mark_price p = (case p ''mark_price'' of Some (PInt n) \<Rightarrow> Some n | _ \<Rightarrow> None)"

definition valued :: "pydict \<Rightarrow> bool" where
  "valued p = (quantity p \<noteq> None \<and> mark_price p \<noteq> None)"

definition identified :: "pydict \<Rightarrow> bool" where
  "identified p = (p ''asset_id'' \<noteq> None)"

definition has_asset_id :: "string \<Rightarrow> pydict \<Rightarrow> bool" where
  "has_asset_id a p = (p ''asset_id'' = Some (PStr a))"

text \<open>Two dictionaries that agree on \<open>quantity\<close> and \<open>mark_price\<close>, whatever else
  they hold.\<close>

definition same_valuation :: "pydict \<Rightarrow> pydict \<Rightarrow> bool" where
  "same_valuation p p' =
     (p ''quantity'' = p' ''quantity'' \<and> p ''mark_price'' = p' ''mark_price'')"

text \<open>The mathematical value of a sequence of valued positions.\<close>

definition total_value :: "pydict list \<Rightarrow> int" where
  "total_value P = (\<Sum>p\<leftarrow>P. the (quantity p) * the (mark_price p))"

text \<open>The Money range the specification recommends: signed 64-bit. The stubs never
  refer to it.\<close>

definition money_max :: int where
  "money_max = 2 ^ 63 - 1"

definition money_min :: int where
  "money_min = - (2 ^ 63)"

definition in_money_range :: "int \<Rightarrow> bool" where
  "in_money_range x = (money_min \<le> x \<and> x \<le> money_max)"

text \<open>\<open>a + b\<close> of two calls, each of which may raise: the left operand is evaluated
  first, and the first exception is the expression's.\<close>

definition add_results :: "int result \<Rightarrow> int result \<Rightarrow> int result" where
  "add_results a b =
     (case a of
        Inl e \<Rightarrow> Inl e
      | Inr x \<Rightarrow> (case b of Inl e \<Rightarrow> Inl e | Inr y \<Rightarrow> Inr (x + y)))"

section \<open>The positions of the test suite\<close>

text \<open>The two positions of \<open>tests/test_ffi.py\<close>, and a store that holds them in one
  list object.\<close>

definition spy :: pydict where
  "spy = [''asset_id'' \<mapsto> PStr ''SPY'', ''quantity'' \<mapsto> PInt 100,
          ''mark_price'' \<mapsto> PInt 500000]"

definition aapl :: pydict where
  "aapl = [''asset_id'' \<mapsto> PStr ''AAPL'', ''quantity'' \<mapsto> PInt 50,
           ''mark_price'' \<mapsto> PInt 1800000]"

text \<open>The first position without its \<open>asset_id\<close>, as
  \<open>test_sum_position_values_multiple\<close> writes it, and the second one under another
  name, with one more key and its entries in another order.\<close>

definition spy_lot :: pydict where
  "spy_lot = [''quantity'' \<mapsto> PInt 100, ''mark_price'' \<mapsto> PInt 500000]"

definition aapl_relabelled :: pydict where
  "aapl_relabelled = [''mark_price'' \<mapsto> PInt 1800000, ''quantity'' \<mapsto> PInt 50,
                      ''asset_id'' \<mapsto> PStr ''MSFT'', ''note'' \<mapsto> PStr ''hedge'']"

text \<open>A position at the upper end of the recommended Money range.\<close>

definition max_lot :: pydict where
  "max_lot = [''quantity'' \<mapsto> PInt money_max, ''mark_price'' \<mapsto> PInt money_max]"

definition test_store :: store where
  "test_store =
     \<lparr>list_obj = (\<lambda>_. [])(7 := [11, 12]),
      dict_obj = (\<lambda>_. Map.empty)(11 := spy, 12 := aapl)\<rparr>"

section \<open>Auxiliary facts\<close>

subsection \<open>The summation loop on values\<close>

lemma getitem_quantity: "quantity p = Some q \<Longrightarrow> getitem p ''quantity'' = Inr (PInt q)"
  by (auto simp: quantity_def getitem_def split: option.splits pyval.splits)

lemma getitem_mark_price: "mark_price p = Some m \<Longrightarrow> getitem p ''mark_price'' = Inr (PInt m)"
  by (auto simp: mark_price_def getitem_def split: option.splits pyval.splits)

lemma position_product_valued:
  assumes "valued p"
  shows "position_product p = Inr (PInt (the (quantity p) * the (mark_price p)))"
proof -
  from assms obtain q m where qm: "quantity p = Some q" "mark_price p = Some m"
    by (auto simp: valued_def)
  then show ?thesis
    by (simp add: position_product_def getitem_quantity getitem_mark_price)
qed

lemma sum_loop_valued:
  "list_all valued ps \<Longrightarrow> sum_loop acc ps = Inr (acc + total_value ps)"
proof (induction ps arbitrary: acc)
  case Nil
  then show ?case by (simp add: total_value_def)
next
  case (Cons p ps)
  from Cons.prems have p: "valued p" and ps: "list_all valued ps"
    by simp_all
  have "sum_loop acc (p # ps) = sum_loop (acc + the (quantity p) * the (mark_price p)) ps"
    by (simp add: position_product_valued [OF p])
  also have "\<dots> = Inr (acc + the (quantity p) * the (mark_price p) + total_value ps)"
    using ps by (rule Cons.IH)
  finally show ?case by (simp add: total_value_def)
qed

lemma sum_loop_shift:
  "sum_loop (a + b) ps = (case sum_loop b ps of Inl e \<Rightarrow> Inl e | Inr s \<Rightarrow> Inr (a + s))"
proof (induction ps arbitrary: b)
  case Nil
  then show ?case by simp
next
  case (Cons p ps)
  show ?case
  proof (cases "position_product p")
    case (Inl e)
    then show ?thesis by simp
  next
    case v: (Inr v)
    show ?thesis
    proof (cases v)
      case (PInt c)
      with v Cons.IH [of "b + c"] show ?thesis by (simp add: add.assoc)
    next
      case (PStr s)
      with v show ?thesis by simp
    qed
  qed
qed

lemma sum_loop_append:
  "sum_loop acc (ps @ qs) = (case sum_loop acc ps of Inl e \<Rightarrow> Inl e | Inr s \<Rightarrow> sum_loop s qs)"
  by (induction ps arbitrary: acc) (simp_all split: sum.splits)

lemma sum_position_values_append:
  "sum_position_values (P1 @ P2) = add_results (sum_position_values P1) (sum_position_values P2)"
proof (cases "sum_loop 0 P1")
  case (Inl e)
  then show ?thesis
    by (simp add: sum_position_values_def sum_loop_append add_results_def)
next
  case (Inr a)
  have "sum_loop a P2 = (case sum_loop 0 P2 of Inl e \<Rightarrow> Inl e | Inr s \<Rightarrow> Inr (a + s))"
    using sum_loop_shift [of a 0 P2] by simp
  with Inr show ?thesis
    by (simp add: sum_position_values_def sum_loop_append add_results_def)
qed

lemma position_product_same_valuation:
  assumes "same_valuation p p'"
  shows "position_product p = position_product p'"
proof -
  from assms have "getitem p ''quantity'' = getitem p' ''quantity''"
    and "getitem p ''mark_price'' = getitem p' ''mark_price''"
    by (simp_all add: same_valuation_def getitem_def)
  then show ?thesis
    by (simp add: position_product_def split: sum.splits)
qed

lemma sum_loop_same_valuation:
  "list_all2 same_valuation P P' \<Longrightarrow> sum_loop acc P = sum_loop acc P'"
  by (induction P P' arbitrary: acc rule: list_all2_induct)
     (simp_all add: position_product_same_valuation split: sum.splits)

lemma sum_list_map_mset:
  fixes f :: "'a \<Rightarrow> int"
  assumes "mset xs = mset ys"
  shows "sum_list (map f xs) = sum_list (map f ys)"
proof -
  have "sum_list (map f xs) = sum_mset (mset (map f xs))"
    by (simp only: sum_mset_sum_list)
  also have "\<dots> = sum_mset (mset (map f ys))"
    using assms by simp
  also have "\<dots> = sum_list (map f ys)"
    by (simp only: sum_mset_sum_list)
  finally show ?thesis .
qed

lemma total_value_mset:
  "mset P = mset P' \<Longrightarrow> total_value P = total_value P'"
  unfolding total_value_def by (rule sum_list_map_mset)

lemma list_all_mset:
  "mset P = mset P' \<Longrightarrow> list_all Q P \<Longrightarrow> list_all Q P'"
  by (metis list_all_iff mset_eq_setD)

subsection \<open>Lookup\<close>

lemma get_position_find:
  "list_all identified P \<Longrightarrow> get_position P a = Inr (find (has_asset_id a) P)"
  by (induction P) (auto simp: identified_def has_asset_id_def getitem_def py_eq_def split: option.splits)

lemma get_position_first:
  "list_all identified pre \<Longrightarrow> \<not> list_ex (has_asset_id a) pre \<Longrightarrow> has_asset_id a p
    \<Longrightarrow> get_position (pre @ p # post) a = Inr (Some p)"
  by (induction pre) (auto simp: identified_def has_asset_id_def getitem_def py_eq_def split: option.splits)

subsection \<open>The stubs on objects agree with the stubs on values\<close>

lemma dict_getitem_store: "snd (dict_getitem h d k) = h"
  by (simp add: dict_getitem_def)

lemma dict_getitem_value: "fst (dict_getitem h d k) = getitem (dict_obj h d) k"
  by (simp add: dict_getitem_def)

lemma position_product_st_store: "snd (position_product_st h p) = h"
  by (simp add: position_product_st_def dict_getitem_def split: sum.splits)

lemma position_product_st_value: "fst (position_product_st h p) = position_product (dict_obj h p)"
  by (simp add: position_product_st_def position_product_def dict_getitem_def split: sum.splits)

lemma position_product_st_eq: "position_product_st h p = (position_product (dict_obj h p), h)"
  by (metis position_product_st_store position_product_st_value prod.collapse)

lemma sum_loop_st_eq: "sum_loop_st h acc ps = (sum_loop acc (map (dict_obj h) ps), h)"
  by (induction ps arbitrary: acc) (simp_all add: position_product_st_eq split: sum.splits)

lemma get_position_loop_st_store: "snd (get_position_loop_st h ps a) = h"
  by (induction ps) (auto simp: dict_getitem_def split: sum.splits prod.splits)

lemma get_position_loop_st_value:
  "map_sum id (map_option (dict_obj h)) (fst (get_position_loop_st h ps a))
     = get_position (map (dict_obj h) ps) a"
  by (induction ps) (auto simp: dict_getitem_def split: sum.splits prod.splits)

lemma sum_position_values_st_eq:
  "sum_position_values_st h l = (sum_position_values (map (dict_obj h) (list_obj h l)), h)"
  by (simp add: sum_position_values_st_def list_elems_def sum_loop_st_eq sum_position_values_def)

lemma calc_nav_st_eq:
  "calc_nav_st h cash l = (calc_nav cash (map (dict_obj h) (list_obj h l)), h)"
  by (simp add: calc_nav_st_def sum_position_values_st_eq calc_nav_def split: sum.splits)

lemma get_position_st_store: "snd (get_position_st h l a) = h"
  by (simp add: get_position_st_def list_elems_def get_position_loop_st_store)

lemma get_position_st_value:
  "map_sum id (map_option (dict_obj h)) (fst (get_position_st h l a))
     = get_position (map (dict_obj h) (list_obj h l)) a"
  by (simp add: get_position_st_def list_elems_def get_position_loop_st_value)

subsection \<open>Dictionaries that are not positions\<close>

text \<open>A dictionary without the key a stub subscripts raises \<open>KeyError\<close>, and a string
  where a number is expected raises \<open>TypeError\<close>; which exception a summation ends
  with depends on the order of its elements.\<close>

lemma sum_position_values_missing_key:
  "sum_position_values [Map.empty] = Inl (KeyError ''quantity'')"
  "sum_position_values [[''quantity'' \<mapsto> PInt 1]] = Inl (KeyError ''mark_price'')"
  by (simp_all add: sum_position_values_def position_product_def getitem_def)

lemma sum_position_values_string_field:
  "sum_position_values [[''quantity'' \<mapsto> PStr ''ab'', ''mark_price'' \<mapsto> PInt 2]]
     = Inl TypeError"
  "sum_position_values [[''quantity'' \<mapsto> PStr ''ab'', ''mark_price'' \<mapsto> PStr ''c'']]
     = Inl TypeError"
  by (simp_all add: sum_position_values_def position_product_def getitem_def)

lemma sum_position_values_exception_order:
  "sum_position_values [Map.empty, [''quantity'' \<mapsto> PInt 1]] = Inl (KeyError ''quantity'')"
  "sum_position_values [[''quantity'' \<mapsto> PInt 1], Map.empty] = Inl (KeyError ''mark_price'')"
  by (simp_all add: sum_position_values_def position_product_def getitem_def)

lemma get_position_missing_key:
  "get_position [spy_lot] a = Inl (KeyError ''asset_id'')"
  "get_position [spy, spy_lot] ''SPY'' = Inr (Some spy)"
  by (simp_all add: getitem_def py_eq_def spy_lot_def spy_def)

lemma get_position_integer_asset_id:
  "get_position [[''asset_id'' \<mapsto> PInt 7]] a = Inr None"
  by (simp add: getitem_def py_eq_def)

subsection \<open>The test positions\<close>

lemma valued_spy: "valued spy"
  by (simp add: spy_def valued_def quantity_def mark_price_def)

lemma valued_aapl: "valued aapl"
  by (simp add: aapl_def valued_def quantity_def mark_price_def)

lemma total_spy_aapl: "total_value [spy, aapl] = 140000000"
  by (simp add: total_value_def spy_def aapl_def quantity_def mark_price_def)

lemma valued_max_lot: "valued max_lot"
  by (simp add: max_lot_def valued_def quantity_def mark_price_def)

lemma total_max_lot: "total_value [max_lot] = money_max * money_max"
  by (simp add: total_value_def max_lot_def quantity_def mark_price_def)

lemma max_lot_out_of_range: "\<not> in_money_range (money_max * money_max)"
  by (simp add: in_money_range_def money_max_def money_min_def)

lemma identified_spy: "identified spy"
  by (simp add: spy_def identified_def)

lemma identified_aapl: "identified aapl"
  by (simp add: aapl_def identified_def)

lemma asset_id_spy: "has_asset_id a spy = (a = ''SPY'')"
  by (auto simp: spy_def has_asset_id_def)

lemma asset_id_aapl: "has_asset_id a aapl = (a = ''AAPL'')"
  by (auto simp: aapl_def has_asset_id_def)

lemma sum_spy_aapl: "sum_position_values [spy, aapl] = Inr 140000000"
proof -
  have "list_all valued [spy, aapl]"
    by (simp add: valued_spy valued_aapl)
  then have "sum_loop 0 [spy, aapl] = Inr (0 + total_value [spy, aapl])"
    by (rule sum_loop_valued)
  then show ?thesis
    by (simp only: sum_position_values_def total_spy_aapl) simp
qed

section \<open>Position valuation\<close>

text \<open>
  C3. For every quantity \<open>q\<close> and every price \<open>m\<close>, negative ones included,
  \<open>position_value q m\<close> is exactly the integer product \<open>q * m\<close>, so the sign of the
  result is the product of the signs of \<open>q\<close> and \<open>m\<close>; and \<open>position_value 0 m\<close> is
  \<open>0\<close> for every \<open>m\<close>, however large.
\<close>

theorem position_value_exact:
  "position_value q m = q * m
   \<and> sgn (position_value q m) = sgn q * sgn m
   \<and> position_value 0 m = 0"
  by (simp add: position_value_def sgn_mult)

section \<open>Summation of position values\<close>

text \<open>
  C4. For every finite sequence \<open>P\<close> of valued positions, \<open>sum_position_values P\<close>
  returns the sum, over the elements \<open>p\<close> of \<open>P\<close>, of \<open>position_value\<close> at the
  quantity and the mark price of \<open>p\<close>; and \<open>sum_position_values []\<close> returns \<open>0\<close>.
\<close>

theorem sum_position_values_is_sum:
  "(list_all valued P \<longrightarrow>
      sum_position_values P
        = Inr (\<Sum>p\<leftarrow>P. position_value (the (quantity p)) (the (mark_price p))))
   \<and> sum_position_values [] = Inr 0"
  by (simp add: sum_position_values_def sum_loop_valued total_value_def position_value_def)

theorem sum_position_values_is_sum_witness:
  "list_all valued [spy, aapl]
   \<and> sum_position_values [spy, aapl]
       = Inr (position_value 100 500000 + position_value 50 1800000)
   \<and> sum_position_values [spy, aapl] = Inr 140000000"
  using sum_position_values_is_sum [of "[spy, aapl]"]
  by (simp add: valued_spy valued_aapl)
     (simp add: spy_def aapl_def quantity_def mark_price_def position_value_def)

text \<open>
  C6. For every finite sequence \<open>P\<close> of valued positions and every permutation \<open>P'\<close>
  of \<open>P\<close> (the same elements with the same multiplicities, in any order),
  \<open>sum_position_values P\<close> and \<open>sum_position_values P'\<close> are the same result. The
  integers are unbounded, so no overflow assumption is needed.
\<close>

theorem sum_position_values_permutation:
  "mset P = mset P' \<Longrightarrow> list_all valued P \<Longrightarrow>
     sum_position_values P = sum_position_values P'"
proof -
  assume eq: "mset P = mset P'" and v: "list_all valued P"
  from eq v have v': "list_all valued P'"
    by (rule list_all_mset)
  have "sum_position_values P = Inr (total_value P)"
    using v by (simp add: sum_position_values_def sum_loop_valued)
  also have "total_value P = total_value P'"
    using eq by (rule total_value_mset)
  also have "Inr (total_value P') = sum_position_values P'"
    using v' by (simp add: sum_position_values_def sum_loop_valued)
  finally show ?thesis .
qed

theorem sum_position_values_permutation_witness:
  "mset [spy, aapl] = mset [aapl, spy]
   \<and> list_all valued [spy, aapl]
   \<and> sum_position_values [spy, aapl] = sum_position_values [aapl, spy]"
proof -
  have eq: "mset [spy, aapl] = mset [aapl, spy]"
    by (simp add: add_mset_commute)
  have v: "list_all valued [spy, aapl]"
    by (simp add: valued_spy valued_aapl)
  from eq v show ?thesis
    using sum_position_values_permutation [OF eq v] by simp
qed

text \<open>
  C9. \<open>sum_position_values\<close> and \<open>calc_nav\<close> depend on the \<open>quantity\<close> and
  \<open>mark_price\<close> entries of each position only: for two sequences of equal length
  whose elements agree pairwise on these two entries, whatever their \<open>asset_id\<close> and
  other keys, \<open>sum_position_values\<close> returns the same result (value or exception),
  and so does \<open>calc_nav\<close> at the same cash.
\<close>

theorem valuation_reads_two_fields:
  "list_all2 same_valuation P P' \<Longrightarrow>
     sum_position_values P = sum_position_values P' \<and> calc_nav cash P = calc_nav cash P'"
  by (simp add: calc_nav_def sum_position_values_def sum_loop_same_valuation)

theorem valuation_reads_two_fields_witness:
  "list_all2 same_valuation [spy, aapl] [spy_lot, aapl_relabelled]
   \<and> spy ''asset_id'' \<noteq> spy_lot ''asset_id''
   \<and> aapl ''asset_id'' \<noteq> aapl_relabelled ''asset_id''
   \<and> sum_position_values [spy, aapl] = sum_position_values [spy_lot, aapl_relabelled]
   \<and> calc_nav 1000000 [spy, aapl] = calc_nav 1000000 [spy_lot, aapl_relabelled]"
proof -
  have s: "list_all2 same_valuation [spy, aapl] [spy_lot, aapl_relabelled]"
    by (simp add: same_valuation_def spy_def aapl_def spy_lot_def aapl_relabelled_def)
  have d: "spy ''asset_id'' \<noteq> spy_lot ''asset_id''"
    "aapl ''asset_id'' \<noteq> aapl_relabelled ''asset_id''"
    by (simp_all add: spy_def aapl_def spy_lot_def aapl_relabelled_def)
  from valuation_reads_two_fields [OF s, of 1000000] s d show ?thesis
    by blast
qed

text \<open>
  C10. \<open>sum_position_values\<close> maps concatenation to addition: for all sequences
  \<open>P1\<close> and \<open>P2\<close>, \<open>sum_position_values (P1 @ P2)\<close> is
  \<open>sum_position_values P1 + sum_position_values P2\<close>, and \<open>calc_nav cash (P1 @ P2)\<close>
  is \<open>calc_nav cash P1 + sum_position_values P2\<close>, as Python evaluates these sums
  (left operand first, the first exception propagating); in particular, when both
  summations return, the concatenation returns the sum of their values.
\<close>

theorem sum_position_values_concat:
  "sum_position_values (P1 @ P2)
     = add_results (sum_position_values P1) (sum_position_values P2)
   \<and> calc_nav cash (P1 @ P2) = add_results (calc_nav cash P1) (sum_position_values P2)
   \<and> (sum_position_values P1 = Inr a \<and> sum_position_values P2 = Inr b \<longrightarrow>
        sum_position_values (P1 @ P2) = Inr (a + b)
        \<and> calc_nav cash P1 = Inr (cash + a)
        \<and> calc_nav cash (P1 @ P2) = Inr (cash + a + b))"
  by (simp add: sum_position_values_append calc_nav_def add_results_def split: sum.splits)

theorem sum_position_values_concat_witness:
  "sum_position_values [spy] = Inr 50000000
   \<and> sum_position_values [aapl] = Inr 90000000
   \<and> sum_position_values ([spy] @ [aapl]) = Inr (50000000 + 90000000)
   \<and> calc_nav 1000000 [spy] = Inr (1000000 + 50000000)
   \<and> calc_nav 1000000 ([spy] @ [aapl]) = Inr (1000000 + 50000000 + 90000000)"
proof -
  have a: "sum_position_values [spy] = Inr 50000000"
    by (simp add: sum_position_values_def position_product_def getitem_def spy_def)
  have b: "sum_position_values [aapl] = Inr 90000000"
    by (simp add: sum_position_values_def position_product_def getitem_def aapl_def)
  from sum_position_values_concat [of "[spy]" "[aapl]" 1000000 50000000 90000000] a b
  show ?thesis
    by blast
qed

section \<open>Net asset value\<close>

text \<open>
  C1. For every cash amount and every finite sequence \<open>P\<close> of positions,
  \<open>calc_nav cash P\<close> is \<open>cash + sum_position_values P\<close>: when the positions are
  valued the summation returns their total and \<open>calc_nav\<close> returns the cash plus that
  total, an exception of the summation is the exception of \<open>calc_nav\<close>, and
  \<open>calc_nav cash []\<close> returns \<open>cash\<close>.
\<close>

theorem calc_nav_cash_plus_sum:
  "calc_nav cash P = add_results (Inr cash) (sum_position_values P)
   \<and> (list_all valued P \<longrightarrow>
        sum_position_values P = Inr (total_value P)
        \<and> calc_nav cash P = Inr (cash + total_value P))
   \<and> calc_nav cash [] = Inr cash"
  by (simp add: calc_nav_def add_results_def sum_position_values_def sum_loop_valued)

theorem calc_nav_cash_plus_sum_witness:
  "list_all valued [spy, aapl]
   \<and> calc_nav 1000000 [spy, aapl] = Inr 141000000
   \<and> calc_nav 1000000 [] = Inr 1000000"
proof -
  have v: "list_all valued [spy, aapl]"
    by (simp add: valued_spy valued_aapl)
  with calc_nav_cash_plus_sum [of 1000000 "[spy, aapl]"]
  have "calc_nav 1000000 [spy, aapl] = Inr (1000000 + total_value [spy, aapl])"
    by blast
  moreover from calc_nav_cash_plus_sum [of 1000000 "[]"]
  have "calc_nav 1000000 [] = Inr 1000000"
    by blast
  ultimately show ?thesis
    using v by (simp add: total_spy_aapl)
qed

section \<open>Results beyond the Money range\<close>

text \<open>
  C2, as amended. The stubs compute on unbounded integers and never signal an
  overflow error: for every input whose true product or sum lies outside the signed
  64-bit Money range, \<open>position_value\<close>, \<open>sum_position_values\<close> and \<open>calc_nav\<close>
  (on valued positions) return that exact product or sum, not a wrapped or truncated
  value.
\<close>

theorem exact_beyond_money_range:
  "(\<not> in_money_range (q * m) \<longrightarrow> position_value q m = q * m)
   \<and> (list_all valued P \<and> \<not> in_money_range (total_value P) \<longrightarrow>
        sum_position_values P = Inr (total_value P))
   \<and> (list_all valued P \<and> \<not> in_money_range (cash + total_value P) \<longrightarrow>
        calc_nav cash P = Inr (cash + total_value P))"
  by (simp add: position_value_def calc_nav_def sum_position_values_def sum_loop_valued)

theorem exact_beyond_money_range_witness:
  "\<not> in_money_range (money_max * money_max)
   \<and> list_all valued [max_lot]
   \<and> \<not> in_money_range (total_value [max_lot])
   \<and> \<not> in_money_range (0 + total_value [max_lot])
   \<and> position_value money_max money_max = 85070591730234615847396907784232501249
   \<and> sum_position_values [max_lot] = Inr 85070591730234615847396907784232501249
   \<and> calc_nav 0 [max_lot] = Inr 85070591730234615847396907784232501249"
proof -
  have r: "\<not> in_money_range (money_max * money_max)"
    by (rule max_lot_out_of_range)
  have v: "list_all valued [max_lot]"
    by (simp add: valued_max_lot)
  have t: "\<not> in_money_range (total_value [max_lot])"
    by (simp add: total_max_lot max_lot_out_of_range)
  have t0: "\<not> in_money_range (0 + total_value [max_lot])"
    using t by simp
  note at_max = exact_beyond_money_range [of money_max money_max "[max_lot]" 0]
  from at_max r have "position_value money_max money_max = money_max * money_max"
    by blast
  moreover from at_max v t have "sum_position_values [max_lot] = Inr (total_value [max_lot])"
    by blast
  moreover from at_max v t0 have "calc_nav 0 [max_lot] = Inr (0 + total_value [max_lot])"
    by blast
  moreover have "money_max * money_max = 85070591730234615847396907784232501249"
    by (simp add: money_max_def)
  ultimately show ?thesis
    using r v t t0 by (simp add: total_max_lot)
qed

text \<open>
  C2, as stated, asks for an overflow error whenever the true result leaves the Money
  range. At the largest Money value as quantity and as price, and at the largest
  Money value as cash beside the first test position (the cash and the position's
  value each within the range, their sum beyond it), the stubs return a value
  instead.
\<close>

theorem overflow_not_signalled_counterexample:
  "money_max = 9223372036854775807
   \<and> \<not> in_money_range (money_max * money_max)
   \<and> position_value money_max money_max = 85070591730234615847396907784232501249
   \<and> sum_position_values [max_lot] = Inr 85070591730234615847396907784232501249
   \<and> in_money_range money_max \<and> in_money_range 50000000
   \<and> \<not> in_money_range (money_max + 50000000)
   \<and> calc_nav money_max [spy_lot] = Inr 9223372036904775807"
  by (simp add: in_money_range_def money_max_def money_min_def position_value_def
      sum_position_values_def calc_nav_def position_product_def getitem_def
      max_lot_def spy_lot_def)

section \<open>Lookup by asset identifier\<close>

text \<open>
  C5. For every finite sequence \<open>P\<close> of identified positions and every query string
  \<open>a\<close>, \<open>get_position P a\<close> returns the first element of \<open>P\<close> whose \<open>asset_id\<close> is
  the string \<open>a\<close> itself (no case folding, no trimming): the element after a prefix
  without a match; and it returns \<open>None\<close>, which is a result and not an exception,
  when no element of \<open>P\<close> has that \<open>asset_id\<close>, and for the empty sequence.
\<close>

theorem get_position_first_match:
  "(list_all identified P \<longrightarrow> get_position P a = Inr (find (has_asset_id a) P))
   \<and> (list_all identified pre \<and> \<not> list_ex (has_asset_id a) pre \<and> has_asset_id a p \<longrightarrow>
        get_position (pre @ p # post) a = Inr (Some p))
   \<and> (list_all identified P \<and> \<not> list_ex (has_asset_id a) P \<longrightarrow>
        get_position P a = Inr None)
   \<and> get_position [] a = Inr None"
proof -
  have "get_position P a = Inr None"
    if "list_all identified P" and "\<not> list_ex (has_asset_id a) P"
  proof -
    from that(2) have "find (has_asset_id a) P = None"
      by (simp add: find_None_iff list_ex_iff)
    with that(1) show ?thesis
      by (simp add: get_position_find)
  qed
  then show ?thesis
    by (simp add: get_position_find get_position_first)
qed

theorem get_position_first_match_witness:
  "list_all identified [spy, aapl]
   \<and> get_position [spy, aapl] ''SPY'' = Inr (Some spy)
   \<and> get_position [spy, aapl] ''AAPL'' = Inr (Some aapl)
   \<and> get_position [spy, aapl] ''TSLA'' = Inr None
   \<and> get_position [spy, aapl] ''spy'' = Inr None
   \<and> get_position [spy, aapl] ''SPY '' = Inr None"
proof -
  have i: "list_all identified [spy, aapl]"
    by (simp add: identified_spy identified_aapl)
  have found: "get_position [spy, aapl] b = Inr (find (has_asset_id b) [spy, aapl])" for b
    using get_position_first_match [of "[spy, aapl]" b] i by blast
  have second: "get_position ([spy] @ aapl # []) ''AAPL'' = Inr (Some aapl)"
    using get_position_first_match [of _ "''AAPL''" "[spy]" aapl "[]"]
    by (simp add: identified_spy asset_id_spy asset_id_aapl)
  have absent: "get_position [spy, aapl] ''TSLA'' = Inr None"
    using get_position_first_match [of "[spy, aapl]" "''TSLA''"] i
    by (simp add: asset_id_spy asset_id_aapl)
  have first: "get_position [spy, aapl] ''SPY'' = Inr (Some spy)"
    unfolding found by (simp add: asset_id_spy)
  have folded: "get_position [spy, aapl] ''spy'' = Inr None"
    unfolding found by (simp add: asset_id_spy asset_id_aapl)
  have padded: "get_position [spy, aapl] ''SPY '' = Inr None"
    unfolding found by (simp add: asset_id_spy asset_id_aapl)
  from i first second absent folded padded show ?thesis
    by simp
qed

section \<open>Effects on the store\<close>

text \<open>
  C8. No kernel operation mutates its input: after \<open>get_position\<close> on a list object
  \<open>l\<close> and a query \<open>a\<close> returns, the store is the store before the call, so the list
  \<open>l\<close> holds the same references and every position dictionary in it holds the same
  entries; and the same is true of \<open>sum_position_values\<close>, \<open>calc_nav\<close> and
  \<open>initialize_lean\<close>.
\<close>

theorem kernel_leaves_store:
  "snd (get_position_st h l a) = h
   \<and> list_obj (snd (get_position_st h l a)) l = list_obj h l
   \<and> list_all (\<lambda>d. dict_obj (snd (get_position_st h l a)) d = dict_obj h d) (list_obj h l)
   \<and> snd (sum_position_values_st h l) = h
   \<and> snd (calc_nav_st h cash l) = h
   \<and> snd (initialize_lean h) = h"
  by (simp add: get_position_st_store sum_position_values_st_eq calc_nav_st_eq
      initialize_lean_def list_all_iff)

theorem kernel_leaves_store_witness:
  "get_position_st test_store 7 ''AAPL'' = (Inr (Some 12), test_store)
   \<and> get_position_st test_store 7 ''TSLA'' = (Inr None, test_store)
   \<and> sum_position_values_st test_store 7 = (Inr 140000000, test_store)
   \<and> calc_nav_st test_store 1000000 7 = (Inr 141000000, test_store)"
proof -
  have l: "list_obj test_store 7 = [11, 12]"
    and d: "dict_obj test_store 11 = spy" "dict_obj test_store 12 = aapl"
    by (simp_all add: test_store_def)
  have "fst (get_position_st test_store 7 ''AAPL'') = Inr (Some 12)"
    by (simp add: get_position_st_def list_elems_def dict_getitem_def getitem_def py_eq_def l d
        spy_def aapl_def)
  moreover have "fst (get_position_st test_store 7 ''TSLA'') = Inr None"
    by (simp add: get_position_st_def list_elems_def dict_getitem_def getitem_def py_eq_def l d
        spy_def aapl_def)
  moreover have "fst (sum_position_values_st test_store 7) = Inr 140000000"
    by (simp add: sum_position_values_st_eq l d sum_spy_aapl)
  moreover have "fst (calc_nav_st test_store 1000000 7) = Inr 141000000"
    by (simp add: calc_nav_st_eq l d calc_nav_def sum_spy_aapl)
  ultimately show ?thesis
    using kernel_leaves_store [of test_store 7 "''AAPL''" 1000000]
      kernel_leaves_store [of test_store 7 "''TSLA''" 1000000]
    by (simp add: prod_eq_iff)
qed

text \<open>
  C7. \<open>initialize_lean\<close> never fails and returns \<open>None\<close>; it leaves the store as it
  found it, so calling it twice is calling it once, calling it \<open>n\<close> times changes
  nothing, every other operation returns after it what it returns without it, and it
  changes nothing after another operation either.
\<close>

theorem initialize_lean_noop:
  "fst (initialize_lean h) = Inr ()
   \<and> snd (initialize_lean h) = h
   \<and> snd (initialize_lean (snd (initialize_lean h))) = snd (initialize_lean h)
   \<and> ((\<lambda>s. snd (initialize_lean s)) ^^ n) h = h
   \<and> get_position_st (snd (initialize_lean h)) l a = get_position_st h l a
   \<and> sum_position_values_st (snd (initialize_lean h)) l = sum_position_values_st h l
   \<and> calc_nav_st (snd (initialize_lean h)) cash l = calc_nav_st h cash l
   \<and> snd (initialize_lean (snd (get_position_st h l a))) = snd (get_position_st h l a)"
proof -
  have "((\<lambda>s. snd (initialize_lean s)) ^^ n) h = h"
    by (induction n) (simp_all add: initialize_lean_def)
  then show ?thesis
    by (simp add: initialize_lean_def)
qed

end
